theory Spec2Isabelle
  imports Complex_Main "HOL-Library.AList"
begin

section \<open>JavaScript values, as far as the form builder handles them\<close>

text \<open>
  Numbers. The program only compares numbers (\<open><\<close>, \<open>>\<close>), tests them for NaN and for
  integrality, and prints them. None of these operations rounds, so a number is modelled
  by its exact value: NaN, an infinity, or a finite real (every finite double is one;
  \<open>-0\<close> and \<open>+0\<close> are both \<open>Fin 0\<close>, which no operation used here distinguishes).
\<close>

datatype jsnum = NaN | NegInf | Fin real | PosInf

text \<open>The relational operator \<open>a < b\<close> on two numbers; \<open>a > b\<close> is \<open>jslt b a\<close>.\<close>

fun jslt :: "jsnum \<Rightarrow> jsnum \<Rightarrow> bool" where
  "jslt NaN b = False"
| "jslt a NaN = False"
| "jslt PosInf b = False"
| "jslt a NegInf = False"
| "jslt NegInf b = True"
| "jslt a PosInf = True"
| "jslt (Fin x) (Fin y) = (x < y)"


text \<open>\<open>Number.isNaN\<close> and \<open>Number.isInteger\<close>.\<close>

fun Number_isNaN :: "jsnum \<Rightarrow> bool" where
  "Number_isNaN NaN = True"
| "Number_isNaN n = False"

fun Number_isInteger :: "jsnum \<Rightarrow> bool" where
  "Number_isInteger (Fin x) = (of_int \<lfloor>x\<rfloor> = x)"
| "Number_isInteger n = False"

text \<open>
  Values: what \<open>JSON.parse\<close> and the form controls produce, plus \<open>undefined\<close> for an
  absent property. A string is the list of its code units, as far as a \<open>char\<close> holds
  them (the code units below 256). An object is the list of its own properties; the
  program reads only the properties \<open>minLength\<close>, \<open>maxLength\<close>, \<open>pattern\<close>,
  \<open>integer\<close>, \<open>min\<close>, \<open>max\<close>, \<open>options\<close> and \<open>value\<close>, none of which is
  inherited or defined on arrays or primitives.
\<close>

datatype jsvalue =
    Undefined
  | Null
  | Bool bool
  | Num jsnum
  | Str string
  | Arr "jsvalue list"
  | Obj "(string \<times> jsvalue) list"

text \<open>
  The built-ins of the platform that the program calls and that are not part of the
  repository: \<open>new RegExp(p)\<close> (\<open>None\<close> when it throws a SyntaxError, otherwise the
  \<open>test\<close> function of the compiled expression), the conversion of a string to a number
  and the conversion of a number to a string.
\<close>

record platform =
  RegExp_new :: "string \<Rightarrow> (string \<Rightarrow> bool) option"
  StringToNumber :: "string \<Rightarrow> jsnum"
  NumberToString :: "jsnum \<Rightarrow> string"

datatype error = TypeError

text \<open>\<open>v == null\<close>.\<close>

fun isNullish :: "jsvalue \<Rightarrow> bool" where
  "isNullish Undefined = True"
| "isNullish Null = True"
| "isNullish v = False"

text \<open>Truthiness (\<open>ToBoolean\<close>).\<close>

fun ToBoolean :: "jsvalue \<Rightarrow> bool" where
  "ToBoolean Undefined = False"
| "ToBoolean Null = False"
| "ToBoolean (Bool b) = b"
| "ToBoolean (Num n) = (n \<noteq> NaN \<and> n \<noteq> Fin 0)"
| "ToBoolean (Str s) = (s \<noteq> [])"
| "ToBoolean (Arr xs) = True"
| "ToBoolean (Obj kvs) = True"

text \<open>\<open>Array.prototype.join\<close> with separator \<open>,\<close> on strings already converted.\<close>

fun join_comma :: "string list \<Rightarrow> string" where
  "join_comma [] = []"
| "join_comma [s] = s"
| "join_comma (s # t # ss) = s @ '','' @ join_comma (t # ss)"

text \<open>
  String conversion (\<open>ToString\<close>, as a template literal applies it). An array joins its
  elements, with \<open>null\<close> and \<open>undefined\<close> elements printed as the empty string.
\<close>

fun ToString :: "platform \<Rightarrow> jsvalue \<Rightarrow> string" where
  "ToString P Undefined = ''undefined''"
| "ToString P Null = ''null''"
| "ToString P (Bool b) = (if b then ''true'' else ''false'')"
| "ToString P (Num n) = NumberToString P n"
| "ToString P (Str s) = s"
| "ToString P (Arr xs) =
     join_comma (map (\<lambda>x. if isNullish x then [] else ToString P x) xs)"
| "ToString P (Obj kvs) = ''[object Object]''"

text \<open>
  Number conversion (\<open>Number(v)\<close>, and the right operand of \<open><\<close> against a number).
  The empty string converts to \<open>0\<close>; every other string is converted by the platform.
  An array or an object is converted through its string.
\<close>

definition stringToNumber :: "platform \<Rightarrow> string \<Rightarrow> jsnum" where
  "stringToNumber P s = (if s = [] then Fin 0 else StringToNumber P s)"

fun ToNumber :: "platform \<Rightarrow> jsvalue \<Rightarrow> jsnum" where
  "ToNumber P Undefined = NaN"
| "ToNumber P Null = Fin 0"
| "ToNumber P (Bool b) = (if b then Fin 1 else Fin 0)"
| "ToNumber P (Num n) = n"
| "ToNumber P (Str s) = stringToNumber P s"
| "ToNumber P v = stringToNumber P (ToString P v)"

text \<open>
  Property access \<open>o.k\<close>: a TypeError on \<open>undefined\<close> and \<open>null\<close>, the own property of
  an object, \<open>undefined\<close> otherwise. \<open>o?.k\<close> is \<open>undefined\<close> where \<open>o.k\<close> throws.
\<close>

fun getProp :: "jsvalue \<Rightarrow> string \<Rightarrow> error + jsvalue" where
  "getProp Undefined k = Inl TypeError"
| "getProp Null k = Inl TypeError"
| "getProp (Obj kvs) k = Inr (case map_of kvs k of None \<Rightarrow> Undefined | Some v \<Rightarrow> v)"
| "getProp v k = Inr Undefined"

definition getPropOpt :: "jsvalue \<Rightarrow> string \<Rightarrow> error + jsvalue" where
  "getPropOpt v k = (if isNullish v then Inr Undefined else getProp v k)"

text \<open>Sequencing of a computation that may throw.\<close>

fun bindE :: "error + 'a \<Rightarrow> ('a \<Rightarrow> error + 'b) \<Rightarrow> error + 'b" where
  "bindE (Inl e) f = Inl e"
| "bindE (Inr x) f = f x"

section \<open>The data model (lib/form-types.ts)\<close>

text \<open>
  \<open>type\<close> is kept as the string the program compares it with; \<open>required\<close> is optional;
  \<open>rules\<close> is the untyped bag the consumers probe, \<open>Undefined\<close> when absent.
\<close>

record Field =
  name :: string
  label :: string
  ftype :: string
  required :: "bool option"
  rules :: jsvalue

record FormDefinition =
  form_id :: string
  title :: string
  description :: "string option"
  form_fields :: "Field list"

section \<open>The validator (components/preview/FormRenderer.tsx and preview/FormRenderer.tsx)\<close>

text \<open>
  The repository holds two copies of \<open>validateValue\<close>. The first is
  components/preview/FormRenderer.tsx, which binds \<open>const rules = field.rules as
  FieldRules\<close> and reads it with \<open>rules.k\<close>. A value is \<open>Inl\<close> an error when the call
  throws, \<open>Inr None\<close> for \<open>null\<close> and \<open>Inr (Some m)\<close> for the message \<open>m\<close>.

  The text rules run after the \<open>typeof value === "string"\<close> test. The properties are
  read in the order the source reads them; a property read again (\<open>rules.minLength\<close> in
  the comparison and in the message, \<open>rules.pattern\<close> in the constructor) is an access
  to the same object that has just succeeded. A \<open>RegExp\<close> that fails to compile is
  caught by the \<open>try\<close> and the block ends without a message.
\<close>

definition textRules :: "platform \<Rightarrow> Field \<Rightarrow> string \<Rightarrow> error + string option" where
  "textRules P field s =
     bindE (getProp (rules field) ''minLength'') (\<lambda>minLength.
       if \<not> isNullish minLength \<and> jslt (Fin (of_nat (length s))) (ToNumber P minLength)
       then Inr (Some (label field @ '' must be at least '' @ ToString P minLength
                       @ '' characters.''))
       else
     bindE (getProp (rules field) ''maxLength'') (\<lambda>maxLength.
       if \<not> isNullish maxLength \<and> jslt (ToNumber P maxLength) (Fin (of_nat (length s)))
       then Inr (Some (label field @ '' must be at most '' @ ToString P maxLength
                       @ '' characters.''))
       else
     bindE (getProp (rules field) ''pattern'') (\<lambda>pattern.
       if ToBoolean pattern
       then (case RegExp_new P (ToString P pattern) of
               None \<Rightarrow> Inr None
             | Some test \<Rightarrow>
                 if \<not> test s then Inr (Some (label field @ '' format is invalid.''))
                 else Inr None)
       else Inr None)))"

text \<open>The number rules run after the \<open>value !== "" && value != null\<close> test.\<close>

definition numberRules :: "platform \<Rightarrow> Field \<Rightarrow> jsvalue \<Rightarrow> error + string option" where
  "numberRules P field v =
     (let num = ToNumber P v in
      if Number_isNaN num then Inr (Some (label field @ '' must be a number.''))
      else
     bindE (getProp (rules field) ''integer'') (\<lambda>integer.
       if ToBoolean integer \<and> \<not> Number_isInteger num
       then Inr (Some (label field @ '' must be a whole number.''))
       else
     bindE (getProp (rules field) ''min'') (\<lambda>minv.
       if \<not> isNullish minv \<and> jslt num (ToNumber P minv)
       then Inr (Some (label field @ '' must be at least '' @ ToString P minv @ ''.''))
       else
     bindE (getProp (rules field) ''max'') (\<lambda>maxv.
       if \<not> isNullish maxv \<and> jslt (ToNumber P maxv) num
       then Inr (Some (label field @ '' must be at most '' @ ToString P maxv @ ''.''))
       else Inr None))))"

text \<open>
  The whole function: the required check, then the text rules for a string value of a
  text-like field, then the number rules for a non-empty value of a number field, then
  \<open>return null\<close>. A message from the text rules ends the call.
\<close>

definition validateValue :: "platform \<Rightarrow> Field \<Rightarrow> jsvalue \<Rightarrow> error + string option" where
  "validateValue P field v =
     (if required field = Some True \<and>
         (if ftype field = ''checkbox'' then v \<noteq> Bool True else (v = Str [] \<or> isNullish v))
      then Inr (Some (label field @ '' is required.''))
      else
     bindE (if ftype field = ''text'' \<or> ftype field = ''textarea'' \<or> ftype field = ''email''
            then (case v of Str s \<Rightarrow> textRules P field s | _ \<Rightarrow> Inr None)
            else Inr None) (\<lambda>r.
       case r of
         Some msg \<Rightarrow> Inr (Some msg)
       | None \<Rightarrow>
           if ftype field = ''number'' \<and> v \<noteq> Str [] \<and> \<not> isNullish v
           then numberRules P field v
           else Inr None))"

text \<open>
  The second copy is preview/FormRenderer.tsx, which binds \<open>const rules: any =
  field.rules\<close> and reads it with \<open>rules?.k\<close>.
\<close>

definition textRules_preview :: "platform \<Rightarrow> Field \<Rightarrow> string \<Rightarrow> error + string option" where
  "textRules_preview P field s =
     bindE (getPropOpt (rules field) ''minLength'') (\<lambda>minLength.
       if \<not> isNullish minLength \<and> jslt (Fin (of_nat (length s))) (ToNumber P minLength)
       then Inr (Some (label field @ '' must be at least '' @ ToString P minLength
                       @ '' characters.''))
       else
     bindE (getPropOpt (rules field) ''maxLength'') (\<lambda>maxLength.
       if \<not> isNullish maxLength \<and> jslt (ToNumber P maxLength) (Fin (of_nat (length s)))
       then Inr (Some (label field @ '' must be at most '' @ ToString P maxLength
                       @ '' characters.''))
       else
     bindE (getPropOpt (rules field) ''pattern'') (\<lambda>pattern.
       if ToBoolean pattern
       then (case RegExp_new P (ToString P pattern) of
               None \<Rightarrow> Inr None
             | Some test \<Rightarrow>
                 if \<not> test s then Inr (Some (label field @ '' format is invalid.''))
                 else Inr None)
       else Inr None)))"

definition numberRules_preview :: "platform \<Rightarrow> Field \<Rightarrow> jsvalue \<Rightarrow> error + string option" where
  "numberRules_preview P field v =
     (let num = ToNumber P v in
      if Number_isNaN num then Inr (Some (label field @ '' must be a number.''))
      else
     bindE (getPropOpt (rules field) ''integer'') (\<lambda>integer.
       if ToBoolean integer \<and> \<not> Number_isInteger num
       then Inr (Some (label field @ '' must be a whole number.''))
       else
     bindE (getPropOpt (rules field) ''min'') (\<lambda>minv.
       if \<not> isNullish minv \<and> jslt num (ToNumber P minv)
       then Inr (Some (label field @ '' must be at least '' @ ToString P minv @ ''.''))
       else
     bindE (getPropOpt (rules field) ''max'') (\<lambda>maxv.
       if \<not> isNullish maxv \<and> jslt (ToNumber P maxv) num
       then Inr (Some (label field @ '' must be at most '' @ ToString P maxv @ ''.''))
       else Inr None))))"

definition validateValue_preview ::
  "platform \<Rightarrow> Field \<Rightarrow> jsvalue \<Rightarrow> error + string option" where
  "validateValue_preview P field v =
     (if required field = Some True \<and>
         (if ftype field = ''checkbox'' then v \<noteq> Bool True else (v = Str [] \<or> isNullish v))
      then Inr (Some (label field @ '' is required.''))
      else
     bindE (if ftype field = ''text'' \<or> ftype field = ''textarea'' \<or> ftype field = ''email''
            then (case v of Str s \<Rightarrow> textRules_preview P field s | _ \<Rightarrow> Inr None)
            else Inr None) (\<lambda>r.
       case r of
         Some msg \<Rightarrow> Inr (Some msg)
       | None \<Rightarrow>
           if ftype field = ''number'' \<and> v \<noteq> Str [] \<and> \<not> isNullish v
           then numberRules_preview P field v
           else Inr None))"

section \<open>The schema projector (lib/schema-generator.ts)\<close>

text \<open>
  The generated schema is a JSON document, so it is a \<open>jsvalue\<close>: a property that the
  program never sets is absent from the object. Setting a property replaces the value of
  an existing key in place and appends a new key (the order of creation, which is the
  order of a JavaScript object whose keys are not array indices).
\<close>

fun setProp :: "jsvalue \<Rightarrow> string \<Rightarrow> jsvalue \<Rightarrow> jsvalue" where
  "setProp (Obj kvs) k v = Obj (AList.update k v kvs)"
| "setProp w k v = w"

text \<open>\<open>typeof value === "object" && value !== null\<close>: objects and arrays.\<close>

fun isRecord :: "jsvalue \<Rightarrow> bool" where
  "isRecord (Obj kvs) = True"
| "isRecord (Arr xs) = True"
| "isRecord v = False"

text \<open>\<open>typeof v === "number"\<close>, \<open>"boolean"\<close>, \<open>"string"\<close>.\<close>

fun isNum :: "jsvalue \<Rightarrow> bool" where
  "isNum (Num n) = True"
| "isNum v = False"

fun isBool :: "jsvalue \<Rightarrow> bool" where
  "isBool (Bool b) = True"
| "isBool v = False"

fun isStr :: "jsvalue \<Rightarrow> bool" where
  "isStr (Str s) = True"
| "isStr v = False"

definition readNumber :: "jsvalue \<Rightarrow> string \<Rightarrow> error + jsvalue" where
  "readNumber obj key =
     bindE (getProp obj key) (\<lambda>v. Inr (if isNum v then v else Undefined))"

definition readBoolean :: "jsvalue \<Rightarrow> string \<Rightarrow> error + jsvalue" where
  "readBoolean obj key =
     bindE (getProp obj key) (\<lambda>v. Inr (if isBool v then v else Undefined))"

definition readString :: "jsvalue \<Rightarrow> string \<Rightarrow> error + jsvalue" where
  "readString obj key =
     bindE (getProp obj key) (\<lambda>v. Inr (if isStr v then v else Undefined))"

text \<open>
  \<open>readOptionsValues\<close>: the \<open>map\<close> reads \<open>opt.value\<close> of every element that is a record
  (and takes \<open>undefined\<close> for the others), the \<open>filter\<close> keeps the strings.
\<close>

fun mapE :: "('a \<Rightarrow> error + 'b) \<Rightarrow> 'a list \<Rightarrow> error + 'b list" where
  "mapE f [] = Inr []"
| "mapE f (x # xs) = bindE (f x) (\<lambda>y. bindE (mapE f xs) (\<lambda>ys. Inr (y # ys)))"

definition readOptionsValues :: "jsvalue \<Rightarrow> error + jsvalue list" where
  "readOptionsValues rs =
     (if \<not> isRecord rs then Inr []
      else
     bindE (getProp rs ''options'') (\<lambda>rawOptions.
       case rawOptions of
         Arr opts \<Rightarrow>
           bindE (mapE (\<lambda>opt. if isRecord opt then getProp opt ''value'' else Inr Undefined)
                    opts) (\<lambda>vs.
             Inr (filter isStr vs))
       | _ \<Rightarrow> Inr []))"

text \<open>
  White space as \<open>String.prototype.trim\<close> and the class \<open>\s\<close> see it, among the code
  units a \<open>char\<close> can hold: TAB, LF, VT, FF, CR, space and the no-break space.
\<close>

definition isSpace :: "char \<Rightarrow> bool" where
  "isSpace c = (c \<in> set [CHR 0x09, CHR 0x0A, CHR 0x0B, CHR 0x0C, CHR 0x0D, CHR 0x20, CHR 0xA0])"

definition trim :: "string \<Rightarrow> string" where
  "trim s = rev (dropWhile isSpace (rev (dropWhile isSpace s)))"

text \<open>\<open>fieldToJsonSchema\<close>, one branch of the \<open>switch\<close> after the other.\<close>

definition fieldToJsonSchema :: "Field \<Rightarrow> error + jsvalue" where
  "fieldToJsonSchema field =
     (if ftype field = ''text'' \<or> ftype field = ''textarea'' \<or> ftype field = ''email'' then
        (let s = Obj [(''type'', Str ''string'')];
             s = (if ftype field = ''email'' then setProp s ''format'' (Str ''email'') else s)
         in if isRecord (rules field) then
              bindE (readNumber (rules field) ''minLength'') (\<lambda>minLength.
              bindE (readNumber (rules field) ''maxLength'') (\<lambda>maxLength.
              bindE (readString (rules field) ''pattern'') (\<lambda>pattern.
                let s = (if minLength \<noteq> Undefined then setProp s ''minLength'' minLength else s);
                    s = (if maxLength \<noteq> Undefined then setProp s ''maxLength'' maxLength else s);
                    s = (case pattern of
                           Str p \<Rightarrow> if p \<noteq> [] \<and> trim p \<noteq> [] then setProp s ''pattern'' pattern
                                    else s
                         | _ \<Rightarrow> s)
                in Inr s)))
            else Inr s)
      else if ftype field = ''number'' then
        (let s = Obj [(''type'', Str ''number'')]
         in if isRecord (rules field) then
              bindE (readBoolean (rules field) ''integer'') (\<lambda>integer.
              bindE (readNumber (rules field) ''min'') (\<lambda>minv.
              bindE (readNumber (rules field) ''max'') (\<lambda>maxv.
                let s = (if integer = Bool True then setProp s ''type'' (Str ''integer'') else s);
                    s = (if minv \<noteq> Undefined then setProp s ''minimum'' minv else s);
                    s = (if maxv \<noteq> Undefined then setProp s ''maximum'' maxv else s)
                in Inr s)))
            else Inr s)
      else if ftype field = ''date'' then
        Inr (Obj [(''type'', Str ''string''), (''format'', Str ''date'')])
      else if ftype field = ''select'' then
        bindE (readOptionsValues (rules field)) (\<lambda>values.
          Inr (Obj [(''type'', Str ''string''), (''enum'', Arr values)]))
      else if ftype field = ''checkbox'' then
        Inr (Obj [(''type'', Str ''boolean'')])
      else
        Inr (Obj [(''type'', Str ''string'')]))"

text \<open>
  \<open>generateJsonSchema\<close>. The loop carries the \<open>properties\<close> object and the \<open>required\<close>
  array; the document gets its \<open>required\<close> key only when the array is not empty.
\<close>

fun generateJsonSchema_loop ::
  "Field list \<Rightarrow> jsvalue \<times> string list \<Rightarrow> error + jsvalue \<times> string list" where
  "generateJsonSchema_loop [] (properties, req) = Inr (properties, req)"
| "generateJsonSchema_loop (field # rest) (properties, req) =
     bindE (fieldToJsonSchema field) (\<lambda>p.
       generateJsonSchema_loop rest
         (setProp properties (name field) p,
          if required field = Some True then req @ [name field] else req))"

definition generateJsonSchema :: "FormDefinition \<Rightarrow> error + jsvalue" where
  "generateJsonSchema form =
     bindE (generateJsonSchema_loop (form_fields form) (Obj [], [])) (\<lambda>(properties, req).
       let schema = Obj [(''$schema'', Str ''https://json-schema.org/draft/2020-12/schema''),
                         (''title'', Str (title form)),
                         (''type'', Str ''object''),
                         (''additionalProperties'', Bool False),
                         (''properties'', properties)]
       in Inr (if length req > 0 then setProp schema ''required'' (Arr (map Str req))
               else schema))"

section \<open>The component exporter (lib/exporters/react-ts.ts)\<close>

text \<open>The character classes of the regular expressions, on code units.\<close>

definition isAlpha :: "char \<Rightarrow> bool" where
  "isAlpha c = (let n = (of_char c :: nat) in (65 \<le> n \<and> n \<le> 90) \<or> (97 \<le> n \<and> n \<le> 122))"

definition isDigit :: "char \<Rightarrow> bool" where
  "isDigit c = (let n = (of_char c :: nat) in 48 \<le> n \<and> n \<le> 57)"

text \<open>
  \<open>safeIdentifier\<close>: every code unit outside \<open>[A-Za-z0-9_\-\s]\<close> becomes a space, the
  result is trimmed, and an empty result is replaced by the fixed name.
\<close>

definition safeIdentifier :: "string \<Rightarrow> string" where
  "safeIdentifier input =
     (let cleaned = trim (map (\<lambda>c. if isAlpha c \<or> isDigit c \<or> c = CHR ''_'' \<or> c = CHR ''-''
                                        \<or> isSpace c then c else CHR '' '') input)
      in if cleaned \<noteq> [] then cleaned else ''GeneratedForm'')"

text \<open>\<open>.replace(/[_\-]+/g, " ")\<close>: every maximal run of \<open>_\<close> and \<open>-\<close> becomes one space.\<close>

definition isSep :: "char \<Rightarrow> bool" where
  "isSep c = (c = CHR ''_'' \<or> c = CHR ''-'')"

function replaceSeps :: "string \<Rightarrow> string" where
  "replaceSeps [] = []"
| "replaceSeps (c # cs) =
     (if isSep c then CHR '' '' # replaceSeps (dropWhile isSep cs) else c # replaceSeps cs)"
  by pat_completeness auto
termination
  by (relation "measure length") (auto simp: length_dropWhile_le less_Suc_eq_le)

text \<open>
  \<open>.split(/\s+/)\<close>: the pieces between maximal runs of white space; a leading or a
  trailing run leaves an empty piece, and the empty string splits into one empty piece.
\<close>

function splitSpaces :: "string \<Rightarrow> string list" where
  "splitSpaces [] = [[]]"
| "splitSpaces (c # cs) =
     (if isSpace c then [] # splitSpaces (dropWhile isSpace cs)
      else (case splitSpaces cs of [] \<Rightarrow> [[c]] | w # ws \<Rightarrow> (c # w) # ws))"
  by pat_completeness auto
termination
  by (relation "measure length") (auto simp: length_dropWhile_le less_Suc_eq_le)

text \<open>
  \<open>part.charAt(0).toUpperCase() + part.slice(1)\<close>. The parts reach this point made of
  ASCII letters and digits only, on which \<open>toUpperCase\<close> maps \<open>a\<close>..\<open>z\<close> to \<open>A\<close>..\<open>Z\<close>
  and changes nothing else.
\<close>

definition toUpperCase :: "char \<Rightarrow> char" where
  "toUpperCase c =
     (let n = (of_char c :: nat) in if 97 \<le> n \<and> n \<le> 122 then char_of (n - 32) else c)"

fun capitalize :: "string \<Rightarrow> string" where
  "capitalize [] = []"
| "capitalize (c # cs) = toUpperCase c # cs"

definition toPascalCase :: "string \<Rightarrow> string" where
  "toPascalCase input =
     concat (map capitalize (filter (\<lambda>part. part \<noteq> []) (splitSpaces (replaceSeps input))))"

text \<open>\<open>/^[A-Za-z_]/.test(s)\<close>.\<close>

fun startsWithLetterOrUnderscore :: "string \<Rightarrow> bool" where
  "startsWithLetterOrUnderscore [] = False"
| "startsWithLetterOrUnderscore (c # cs) = (isAlpha c \<or> c = CHR ''_'')"

definition makeSafeComponentName :: "string \<Rightarrow> string" where
  "makeSafeComponentName input =
     (let base = toPascalCase (safeIdentifier input);
          fallback = (if length base \<noteq> 0 then base else ''GeneratedForm'')
      in if startsWithLetterOrUnderscore fallback then fallback else ''Form'' @ fallback)"

text \<open>
  \<open>escapeTemplateString\<close>: three global replacements, one after the other. Each pass
  is the left-to-right, non-overlapping replacement of \<open>String.prototype.replace\<close>.
\<close>

definition backslash :: char where
  "backslash = CHR 0x5C"

definition backtick :: char where
  "backtick = CHR 0x60"

fun replaceBackslashes :: "string \<Rightarrow> string" where
  "replaceBackslashes [] = []"
| "replaceBackslashes (c # cs) =
     (if c = backslash then backslash # backslash # replaceBackslashes cs
      else c # replaceBackslashes cs)"

fun replaceBackticks :: "string \<Rightarrow> string" where
  "replaceBackticks [] = []"
| "replaceBackticks (c # cs) =
     (if c = backtick then backslash # backtick # replaceBackticks cs
      else c # replaceBackticks cs)"

fun replaceDollarBraces :: "string \<Rightarrow> string" where
  "replaceDollarBraces [] = []"
| "replaceDollarBraces [c] = [c]"
| "replaceDollarBraces (c # d # cs) =
     (if c = CHR ''$'' \<and> d = CHR ''{''
      then backslash # CHR ''$'' # CHR ''{'' # replaceDollarBraces cs
      else c # replaceDollarBraces (d # cs))"

definition escapeTemplateString :: "string \<Rightarrow> string" where
  "escapeTemplateString input =
     replaceDollarBraces (replaceBackticks (replaceBackslashes input))"

text \<open>
  The three values \<open>generateReactTsComponent\<close> computes from the form before it fills
  its template: \<open>componentName\<close> from \<open>form.id || form.title || "GeneratedForm"\<close>, the
  escaped \<open>title\<close>, and the escaped \<open>description\<close> (empty when the form has none).
\<close>

definition componentName :: "FormDefinition \<Rightarrow> string" where
  "componentName form =
     makeSafeComponentName
       (if form_id form \<noteq> [] then form_id form
        else if title form \<noteq> [] then title form
        else ''GeneratedForm'')"

definition escapedTitle :: "FormDefinition \<Rightarrow> string" where
  "escapedTitle form = escapeTemplateString (title form)"

definition escapedDescription :: "FormDefinition \<Rightarrow> string" where
  "escapedDescription form =
     (case description form of
        None \<Rightarrow> []
      | Some d \<Rightarrow> if d \<noteq> [] then escapeTemplateString d else [])"

text \<open>
  The two places of the template that receive them (without the indentation of the
  lines): the title is the content of one \<open>div\<close> element, and the description, when it
  is not empty, the content of another. The text between the tags comes out as it was
  computed; nothing is applied to it after \<open>escapeTemplateString\<close>.
\<close>

definition titleElement :: "FormDefinition \<Rightarrow> string" where
  "titleElement form =
     ''<div style={{ fontSize: 18, fontWeight: 600 }}>'' @ escapedTitle form @ ''</div>''"

definition descriptionElement :: "FormDefinition \<Rightarrow> string" where
  "descriptionElement form =
     (if escapedDescription form \<noteq> []
      then ''<div style={{ color: '' @ [CHR 0x22] @ ''#666'' @ [CHR 0x22] @ '', fontSize: 14 }}>''
           @ escapedDescription form @ ''</div>''
      else [])"

section \<open>Vocabulary of the properties\<close>

text \<open>
  The entry a bag or a document has under a key: the own property of an object,
  \<open>undefined\<close> when the object has none or when the value is not an object.
\<close>

fun ownProp :: "jsvalue \<Rightarrow> string \<Rightarrow> jsvalue" where
  "ownProp (Obj kvs) k = (case map_of kvs k of None \<Rightarrow> Undefined | Some v \<Rightarrow> v)"
| "ownProp v k = Undefined"

text \<open>
  The rule keys of each field type, and the schema keys they are projected to (the table
  of the rule model): a field of any other type has none.
\<close>

definition ruleKeys :: "string \<Rightarrow> string list" where
  "ruleKeys t =
     (if t = ''text'' \<or> t = ''textarea'' \<or> t = ''email''
      then [''minLength'', ''maxLength'', ''pattern'']
      else if t = ''number'' then [''min'', ''max'', ''integer'']
      else if t = ''select'' then [''options'']
      else [])"

definition schemaKeys :: "string \<Rightarrow> string list" where
  "schemaKeys t =
     (if t = ''text'' \<or> t = ''textarea'' then [''type'', ''minLength'', ''maxLength'', ''pattern'']
      else if t = ''email'' then [''type'', ''format'', ''minLength'', ''maxLength'', ''pattern'']
      else if t = ''number'' then [''type'', ''minimum'', ''maximum'']
      else if t = ''date'' then [''type'', ''format'']
      else if t = ''select'' then [''type'', ''enum'']
      else [''type''])"

text \<open>
  A stand-in for the platform, to evaluate examples: the pattern \<open>[\<close> does not compile
  (as on the platform) and every other pattern is taken to match exactly the non-empty
  strings; a string of decimal digits converts to its number and any other non-empty
  string to NaN; a natural number below ten prints as its digit.
\<close>

definition digitsToNumber :: "string \<Rightarrow> jsnum" where
  "digitsToNumber s =
     (if list_all isDigit s
      then Fin (of_nat (foldl (\<lambda>a c. 10 * a + (of_char c - 48)) 0 s))
      else NaN)"

definition digitToString :: "jsnum \<Rightarrow> string" where
  "digitToString n =
     (case n of
        Fin x \<Rightarrow> if 0 \<le> x \<and> x < 10 \<and> of_int \<lfloor>x\<rfloor> = x then [char_of (48 + nat \<lfloor>x\<rfloor>)]
                 else ''?''
      | _ \<Rightarrow> ''?'')"

definition examplePlatform :: platform where
  "examplePlatform =
     \<lparr>RegExp_new = (\<lambda>p. if p = ''['' then None else Some (\<lambda>s. s \<noteq> [])),
      StringToNumber = digitsToNumber,
      NumberToString = digitToString\<rparr>"

section \<open>Properties of the validator\<close>

subsection \<open>The two copies\<close>

lemma getPropOpt_eq: "\<not> isNullish r \<Longrightarrow> getPropOpt r k = getProp r k"
  by (simp add: getPropOpt_def)

lemma textRules_preview_eq:
  assumes "\<not> isNullish (rules field)"
  shows "textRules_preview P field s = textRules P field s"
  unfolding textRules_preview_def textRules_def getPropOpt_eq [OF assms] ..

lemma numberRules_preview_eq:
  assumes "\<not> isNullish (rules field)"
  shows "numberRules_preview P field v = numberRules P field v"
  unfolding numberRules_preview_def numberRules_def getPropOpt_eq [OF assms] ..

text \<open>
  On a field that has a rules bag (anything but \<open>undefined\<close> and \<open>null\<close>) the two copies
  compute the same outcome.
\<close>

lemma validateValue_copies_agree:
  assumes "\<not> isNullish (rules field)"
  shows "validateValue_preview P field v = validateValue P field v"
  unfolding validateValue_preview_def validateValue_def
    textRules_preview_eq [OF assms] numberRules_preview_eq [OF assms] ..

text \<open>The copy that reads \<open>rules?.k\<close> returns on every field and every value.\<close>

lemma getPropOpt_total: "\<exists>w. getPropOpt r k = Inr w"
  by (cases r) (simp_all add: getPropOpt_def)

lemma textRules_preview_total: "\<exists>r. textRules_preview P field s = Inr r"
proof -
  obtain a where a: "getPropOpt (rules field) ''minLength'' = Inr a"
    using getPropOpt_total by blast
  obtain b where b: "getPropOpt (rules field) ''maxLength'' = Inr b"
    using getPropOpt_total by blast
  obtain c where c: "getPropOpt (rules field) ''pattern'' = Inr c"
    using getPropOpt_total by blast
  show ?thesis
    unfolding textRules_preview_def a b c by (simp split: option.splits)
qed

lemma numberRules_preview_total: "\<exists>r. numberRules_preview P field v = Inr r"
proof -
  obtain a where a: "getPropOpt (rules field) ''integer'' = Inr a"
    using getPropOpt_total by blast
  obtain b where b: "getPropOpt (rules field) ''min'' = Inr b"
    using getPropOpt_total by blast
  obtain c where c: "getPropOpt (rules field) ''max'' = Inr c"
    using getPropOpt_total by blast
  show ?thesis
    unfolding numberRules_preview_def a b c by (simp add: Let_def)
qed

lemma validateValue_preview_total: "\<exists>r. validateValue_preview P field v = Inr r"
proof -
  obtain n where n: "numberRules_preview P field v = Inr n"
    using numberRules_preview_total by blast
  show ?thesis
  proof (cases v)
    case (Str s)
    obtain t where t: "textRules_preview P field s = Inr t"
      using textRules_preview_total by blast
    show ?thesis
      unfolding validateValue_preview_def Str using t n [unfolded Str]
      by (simp split: option.splits)
  qed (simp_all add: validateValue_preview_def numberRules_preview_total)
qed

text \<open>
  C1. The claim is that \<open>validateValue\<close> returns a message or \<open>null\<close> on every field and
  every value, and in particular does not raise on a text field without a rules bag. The
  copy in components/preview/FormRenderer.tsx reads \<open>rules.minLength\<close> on the absent
  bag: on the text field \<open>Full name\<close> without rules and the value \<open>Ada\<close> the call
  throws a TypeError.
\<close>

theorem validateValue_absent_rules_throws:
  "validateValue P \<lparr>name = ''fullName'', label = ''Full name'', ftype = ''text'',
       required = None, rules = Undefined\<rparr> (Str ''Ada'') = Inl TypeError"
  by (simp add: validateValue_def textRules_def)

text \<open>
  C10. The claim is that the two copies of \<open>validateValue\<close> have the same outcome on every
  field and every value. On a required textarea without a rules bag and the value
  \<open>hello\<close>, the copy in components/preview/FormRenderer.tsx throws a TypeError and
  the copy in preview/FormRenderer.tsx returns \<open>null\<close>.
\<close>

theorem validateValue_copies_differ:
  "validateValue P \<lparr>name = ''message'', label = ''Message'', ftype = ''textarea'',
       required = Some True, rules = Undefined\<rparr> (Str ''hello'') = Inl TypeError \<and>
   validateValue_preview P \<lparr>name = ''message'', label = ''Message'', ftype = ''textarea'',
       required = Some True, rules = Undefined\<rparr> (Str ''hello'') = Inr None"
  by (simp add: validateValue_def textRules_def validateValue_preview_def textRules_preview_def
      getPropOpt_def)

subsection \<open>The required check\<close>

text \<open>
  C2. On a field with \<open>required\<close> true and a value that is empty for its type (anything
  but \<open>true\<close> for a checkbox; the empty string, \<open>null\<close> or \<open>undefined\<close> for every other
  type), \<open>validateValue\<close> returns exactly the message \<open><label> is required.\<close>, whatever
  the rules of the field are: no rule is read, also not where reading one would throw.
\<close>

theorem validateValue_required_empty:
  assumes "required field = Some True"
    and "if ftype field = ''checkbox'' then v \<noteq> Bool True
         else v = Str [] \<or> v = Null \<or> v = Undefined"
  shows "validateValue P field v = Inr (Some (label field @ '' is required.''))"
  using assms by (auto simp: validateValue_def split: if_splits)

theorem validateValue_required_empty_witness:
  "validateValue examplePlatform
     \<lparr>name = ''agree'', label = ''I agree'', ftype = ''checkbox'', required = Some True,
        rules = Undefined\<rparr> (Bool False) = Inr (Some ''I agree is required.'') \<and>
   validateValue examplePlatform
     \<lparr>name = ''zip'', label = ''Zip'', ftype = ''text'', required = Some True,
        rules = Obj [(''minLength'', Num (Fin 5)), (''pattern'', Str ''^[0-9]+$'')]\<rparr> (Str [])
     = Inr (Some ''Zip is required.'')"
  using validateValue_required_empty [of
      "\<lparr>name = ''agree'', label = ''I agree'', ftype = ''checkbox'', required = Some True,
        rules = Undefined\<rparr>" "Bool False" examplePlatform]
    validateValue_required_empty [of
      "\<lparr>name = ''zip'', label = ''Zip'', ftype = ''text'', required = Some True,
        rules = Obj [(''minLength'', Num (Fin 5)), (''pattern'', Str ''^[0-9]+$'')]\<rparr>"
      "Str []" examplePlatform]
  by simp

subsection \<open>The text rules\<close>

lemma validateValue_text:
  assumes "ftype field = ''text'' \<or> ftype field = ''textarea'' \<or> ftype field = ''email''"
  shows "validateValue P field (Str s) =
      (if required field = Some True \<and> s = [] then Inr (Some (label field @ '' is required.''))
       else textRules P field s)"
proof -
  have nt: "ftype field \<noteq> ''number''" using assms by auto
  show ?thesis
    unfolding validateValue_def using assms nt
    by (cases "textRules P field s") (auto split: option.splits)
qed

text \<open>
  C3. On a text, textarea or email field whose \<open>rules.pattern\<close> is a string that does not
  compile, and on every string value, \<open>validateValue\<close> does not raise, does not return
  the message of the pattern check, and returns what it returns for the same field with
  the pattern removed from its rules (so the field can still fail the required check and
  the length checks).
\<close>

theorem validateValue_invalid_pattern:
  assumes t: "ftype field = ''text'' \<or> ftype field = ''textarea'' \<or> ftype field = ''email''"
    and r: "rules field = Obj kvs"
    and p: "map_of kvs ''pattern'' = Some (Str p)"
    and bad: "RegExp_new P p = None"
  shows "validateValue P field (Str s) \<noteq> Inl e \<and>
         validateValue P field (Str s) \<noteq> Inr (Some (label field @ '' format is invalid.'')) \<and>
         validateValue P field (Str s) =
           validateValue P (field\<lparr>rules := Obj (AList.delete ''pattern'' kvs)\<rparr>) (Str s)"
proof -
  let ?g = "field\<lparr>rules := Obj (AList.delete ''pattern'' kvs)\<rparr>"
  have tx: "textRules P field s = textRules P ?g s"
    unfolding textRules_def r using p bad by (simp add: delete_conv')
  have tg: "ftype ?g = ''text'' \<or> ftype ?g = ''textarea'' \<or> ftype ?g = ''email''"
    using t by simp
  have eq: "validateValue P field (Str s) = validateValue P ?g (Str s)"
    unfolding validateValue_text [OF t] validateValue_text [OF tg] using tx by simp
  have tr: "textRules P field s \<noteq> Inl e \<and>
            textRules P field s \<noteq> Inr (Some (label field @ '' format is invalid.''))"
    unfolding textRules_def r using p bad by simp
  show ?thesis using validateValue_text [OF t, of P s] tr eq by simp
qed

theorem validateValue_invalid_pattern_witness:
  "RegExp_new examplePlatform ''['' = None \<and>
   validateValue examplePlatform
     \<lparr>name = ''code'', label = ''Code'', ftype = ''text'', required = Some True,
        rules = Obj [(''maxLength'', Num (Fin 3)), (''pattern'', Str ''['')]\<rparr> (Str ''ab'')
     = validateValue examplePlatform
     \<lparr>name = ''code'', label = ''Code'', ftype = ''text'', required = Some True,
        rules = Obj [(''maxLength'', Num (Fin 3))]\<rparr> (Str ''ab'')"
  using validateValue_invalid_pattern [of
      "\<lparr>name = ''code'', label = ''Code'', ftype = ''text'', required = Some True,
        rules = Obj [(''maxLength'', Num (Fin 3)), (''pattern'', Str ''['')]\<rparr>"
      "[(''maxLength'', Num (Fin 3)), (''pattern'', Str ''['')]" "''[''" examplePlatform "''ab''"]
  by (simp add: examplePlatform_def)

subsection \<open>The number rules\<close>





section \<open>Properties of the schema projector\<close>

subsection \<open>Reading the rules bag\<close>

lemma getProp_record: "isRecord r \<Longrightarrow> getProp r k = Inr (ownProp r k)"
  by (cases r) simp_all

lemma ownProp_not_record: "\<not> isRecord r \<Longrightarrow> ownProp r k = Undefined"
  by (cases r) simp_all

lemma readNumber_record:
  "isRecord r \<Longrightarrow> readNumber r k = Inr (if isNum (ownProp r k) then ownProp r k else Undefined)"
  by (simp add: readNumber_def getProp_record)

lemma readString_record:
  "isRecord r \<Longrightarrow> readString r k = Inr (if isStr (ownProp r k) then ownProp r k else Undefined)"
  by (simp add: readString_def getProp_record)

lemma readBoolean_record:
  "isRecord r \<Longrightarrow> readBoolean r k = Inr (if isBool (ownProp r k) then ownProp r k else Undefined)"
  by (simp add: readBoolean_def getProp_record)

lemma mapE_value:
  "mapE (\<lambda>opt. if isRecord opt then getProp opt ''value'' else Inr Undefined) opts
     = Inr (map (\<lambda>opt. ownProp opt ''value'') opts)"
  by (induction opts) (simp_all add: getProp_record ownProp_not_record)

lemma readOptionsValues_eq:
  "readOptionsValues rs =
     Inr (case ownProp rs ''options'' of
            Arr opts \<Rightarrow> filter isStr (map (\<lambda>opt. ownProp opt ''value'') opts)
          | _ \<Rightarrow> [])"
proof (cases "isRecord rs")
  case True
  then show ?thesis
    by (cases "ownProp rs ''options''")
       (simp_all add: readOptionsValues_def getProp_record mapE_value)
next
  case False
  then show ?thesis
    by (simp add: readOptionsValues_def ownProp_not_record)
qed


lemma fieldToJsonSchema_text:
  assumes "ftype field = ''text'' \<or> ftype field = ''textarea'' \<or> ftype field = ''email''"
  shows "fieldToJsonSchema field =
     Inr (let s = Obj [(''type'', Str ''string'')];
              s = (if ftype field = ''email'' then setProp s ''format'' (Str ''email'') else s);
              s = (if isNum (ownProp (rules field) ''minLength'')
                   then setProp s ''minLength'' (ownProp (rules field) ''minLength'') else s);
              s = (if isNum (ownProp (rules field) ''maxLength'')
                   then setProp s ''maxLength'' (ownProp (rules field) ''maxLength'') else s)
          in case ownProp (rules field) ''pattern'' of
               Str p \<Rightarrow> if p \<noteq> [] \<and> trim p \<noteq> []
                        then setProp s ''pattern'' (ownProp (rules field) ''pattern'') else s
             | _ \<Rightarrow> s)"
proof (cases "isRecord (rules field)")
  case True
  have "ftype field \<noteq> ''number''" using assms by auto
  then show ?thesis
    unfolding fieldToJsonSchema_def readNumber_record [OF True] readString_record [OF True]
    using assms True
    by (cases "ownProp (rules field) ''pattern''") (simp_all add: Let_def)
next
  case False
  show ?thesis
    unfolding fieldToJsonSchema_def using assms False
    by (simp add: ownProp_not_record Let_def)
qed

lemma fieldToJsonSchema_number:
  assumes "ftype field = ''number''"
  shows "fieldToJsonSchema field =
     Inr (let s = Obj [(''type'', Str ''number'')];
              s = (if ownProp (rules field) ''integer'' = Bool True
                   then setProp s ''type'' (Str ''integer'') else s);
              s = (if isNum (ownProp (rules field) ''min'')
                   then setProp s ''minimum'' (ownProp (rules field) ''min'') else s)
          in if isNum (ownProp (rules field) ''max'')
             then setProp s ''maximum'' (ownProp (rules field) ''max'') else s)"
proof (cases "isRecord (rules field)")
  case True
  show ?thesis
    unfolding fieldToJsonSchema_def readNumber_record [OF True] readBoolean_record [OF True]
    using assms True
    by (cases "ownProp (rules field) ''integer''") (simp_all add: Let_def)
next
  case False
  show ?thesis
    unfolding fieldToJsonSchema_def using assms False
    by (simp add: ownProp_not_record Let_def)
qed

lemma fieldToJsonSchema_select:
  assumes "ftype field = ''select''"
  shows "fieldToJsonSchema field =
     Inr (Obj [(''type'', Str ''string''),
               (''enum'', Arr (case ownProp (rules field) ''options'' of
                     Arr opts \<Rightarrow> filter isStr (map (\<lambda>opt. ownProp opt ''value'') opts)
                   | _ \<Rightarrow> []))])"
  unfolding fieldToJsonSchema_def readOptionsValues_eq using assms by simp

lemma fieldToJsonSchema_other:
  assumes "ftype field \<noteq> ''text''" "ftype field \<noteq> ''textarea''" "ftype field \<noteq> ''email''"
    "ftype field \<noteq> ''number''" "ftype field \<noteq> ''select''"
  shows "fieldToJsonSchema field =
     Inr (if ftype field = ''date'' then Obj [(''type'', Str ''string''), (''format'', Str ''date'')]
          else if ftype field = ''checkbox'' then Obj [(''type'', Str ''boolean'')]
          else Obj [(''type'', Str ''string'')])"
  unfolding fieldToJsonSchema_def using assms by simp

lemma fieldToJsonSchema_total: "\<exists>p. fieldToJsonSchema field = Inr p"
proof -
  consider "ftype field = ''text'' \<or> ftype field = ''textarea'' \<or> ftype field = ''email''"
    | "ftype field = ''number''" | "ftype field = ''select''"
    | "ftype field \<noteq> ''text''" "ftype field \<noteq> ''textarea''" "ftype field \<noteq> ''email''"
      "ftype field \<noteq> ''number''" "ftype field \<noteq> ''select''"
    by blast
  then show ?thesis
  proof cases
    case 1 then show ?thesis using fieldToJsonSchema_text by blast
  next
    case 2 then show ?thesis using fieldToJsonSchema_number by blast
  next
    case 3 then show ?thesis using fieldToJsonSchema_select by blast
  next
    case 4 then show ?thesis using fieldToJsonSchema_other by blast
  qed
qed

subsection \<open>The document\<close>

lemma generateJsonSchema_loop_required:
  "\<exists>kvs'. generateJsonSchema_loop fs (Obj kvs, req) =
      Inr (Obj kvs', req @ map name (filter (\<lambda>f. required f = Some True) fs))"
proof (induction fs arbitrary: kvs req)
  case Nil
  then show ?case by simp
next
  case (Cons f fs)
  obtain p where p: "fieldToJsonSchema f = Inr p"
    using fieldToJsonSchema_total by blast
  show ?case
    using Cons.IH [of "AList.update (name f) p kvs"
        "if required f = Some True then req @ [name f] else req"]
    by (auto simp: p)
qed

text \<open>
  C4. The \<open>required\<close> key of the generated document is the array of the names of the
  fields whose \<open>required\<close> flag is true, in field order, and it is the last key of the
  document; when no field is required the document ends with \<open>properties\<close> and has no
  \<open>required\<close> key at all.
\<close>

theorem generateJsonSchema_required:
  "\<exists>props. generateJsonSchema form =
     Inr (Obj ([(''$schema'', Str ''https://json-schema.org/draft/2020-12/schema''),
                (''title'', Str (title form)),
                (''type'', Str ''object''),
                (''additionalProperties'', Bool False),
                (''properties'', props)] @
               (let names = map name (filter (\<lambda>f. required f = Some True) (form_fields form))
                in if names = [] then [] else [(''required'', Arr (map Str names))])))"
proof -
  obtain kvs' where l: "generateJsonSchema_loop (form_fields form) (Obj [], []) =
      Inr (Obj kvs', [] @ map name (filter (\<lambda>f. required f = Some True) (form_fields form)))"
    using generateJsonSchema_loop_required by blast
  show ?thesis
    unfolding generateJsonSchema_def l by (simp add: Let_def)
qed

lemma generateJsonSchema_loop_other:
  assumes "generateJsonSchema_loop fs (Obj kvs, req) = Inr (Obj kvs', req')"
    and "k \<notin> name ` set fs"
  shows "map_of kvs' k = map_of kvs k"
  using assms
proof (induction fs arbitrary: kvs req)
  case Nil
  then show ?case by simp
next
  case (Cons f fs)
  obtain p where p: "fieldToJsonSchema f = Inr p"
    using fieldToJsonSchema_total by blast
  have "map_of kvs' k = map_of (AList.update (name f) p kvs) k"
    using Cons.IH [of "AList.update (name f) p kvs"
        "if required f = Some True then req @ [name f] else req"] Cons.prems
    by (simp add: p)
  then show ?case using Cons.prems by (simp add: update_conv')
qed

lemma generateJsonSchema_loop_property:
  assumes "generateJsonSchema_loop fs (Obj kvs, req) = Inr (Obj kvs', req')"
    and "distinct (map name fs)" and "f \<in> set fs"
  shows "fieldToJsonSchema f = Inr (ownProp (Obj kvs') (name f))"
  using assms
proof (induction fs arbitrary: kvs req)
  case Nil
  then show ?case by simp
next
  case (Cons g fs)
  obtain p where p: "fieldToJsonSchema g = Inr p"
    using fieldToJsonSchema_total by blast
  have l: "generateJsonSchema_loop fs (Obj (AList.update (name g) p kvs),
             if required g = Some True then req @ [name g] else req) = Inr (Obj kvs', req')"
    using Cons.prems(1) by (simp add: p)
  show ?case
  proof (cases "f = g")
    case True
    have "name g \<notin> name ` set fs" using Cons.prems(2) by simp
    then have "map_of kvs' (name g) = map_of (AList.update (name g) p kvs) (name g)"
      using generateJsonSchema_loop_other [OF l] by blast
    then show ?thesis using True p by (simp add: update_conv')
  next
    case False
    then show ?thesis using Cons.IH [OF l] Cons.prems by simp
  qed
qed

text \<open>
  C5, as the program has it. For a select field the projector returns (it does not
  throw) the schema \<open>{type: "string", enum: [...]}\<close>. When \<open>rules.options\<close> is an array,
  the \<open>enum\<close> holds, in option order, the \<open>value\<close> of every option that is an object
  with a string \<open>value\<close>, and the other options are skipped; so it is the list of all
  the values when every option has a string \<open>value\<close>. When the rules bag or its
  \<open>options\<close> entry is missing, and when \<open>options\<close> is not an array, the \<open>enum\<close> is
  empty.
\<close>

theorem fieldToJsonSchema_select_enum:
  assumes "ftype field = ''select''"
  shows "fieldToJsonSchema field =
           Inr (Obj [(''type'', Str ''string''),
                     (''enum'', Arr (case ownProp (rules field) ''options'' of
                         Arr opts \<Rightarrow> filter isStr (map (\<lambda>opt. ownProp opt ''value'') opts)
                       | _ \<Rightarrow> []))]) \<and>
         (\<forall>opts. list_all (\<lambda>opt. isStr (ownProp opt ''value'')) opts \<longrightarrow>
            filter isStr (map (\<lambda>opt. ownProp opt ''value'') opts) =
              map (\<lambda>opt. ownProp opt ''value'') opts)"
proof -
  have "filter isStr (map (\<lambda>opt. ownProp opt ''value'') opts) =
          map (\<lambda>opt. ownProp opt ''value'') opts"
    if "list_all (\<lambda>opt. isStr (ownProp opt ''value'')) opts" for opts
    using that by (simp add: list_all_iff filter_map comp_def)
  then show ?thesis
    using fieldToJsonSchema_select [OF assms] by blast
qed

theorem fieldToJsonSchema_select_enum_witness:
  "fieldToJsonSchema
     \<lparr>name = ''answer'', label = ''Answer'', ftype = ''select'', required = None,
        rules = Obj [(''options'', Arr [Obj [(''label'', Str ''Yes''), (''value'', Str ''y'')],
                                        Obj [(''label'', Str ''No''), (''value'', Str ''n'')]])]\<rparr>
     = Inr (Obj [(''type'', Str ''string''), (''enum'', Arr [Str ''y'', Str ''n''])]) \<and>
   fieldToJsonSchema
     \<lparr>name = ''answer'', label = ''Answer'', ftype = ''select'', required = None,
        rules = Obj [(''options'', Str ''yes,no'')]\<rparr>
     = Inr (Obj [(''type'', Str ''string''), (''enum'', Arr [])]) \<and>
   fieldToJsonSchema
     \<lparr>name = ''answer'', label = ''Answer'', ftype = ''select'', required = None,
        rules = Undefined\<rparr>
     = Inr (Obj [(''type'', Str ''string''), (''enum'', Arr [])])"
  using fieldToJsonSchema_select_enum [of
     "\<lparr>name = ''answer'', label = ''Answer'', ftype = ''select'', required = None,
        rules = Obj [(''options'', Arr [Obj [(''label'', Str ''Yes''), (''value'', Str ''y'')],
                                        Obj [(''label'', Str ''No''), (''value'', Str ''n'')]])]\<rparr>"]
    fieldToJsonSchema_select_enum [of
     "\<lparr>name = ''answer'', label = ''Answer'', ftype = ''select'', required = None,
        rules = Obj [(''options'', Str ''yes,no'')]\<rparr>"]
    fieldToJsonSchema_select_enum [of
     "\<lparr>name = ''answer'', label = ''Answer'', ftype = ''select'', required = None,
        rules = Undefined\<rparr>"]
  by simp

text \<open>
  The claim as it is written, an empty \<open>enum\<close> whenever the options are malformed, fails
  on an array that holds both kinds of options: the number \<open>5\<close> and the option whose
  \<open>value\<close> is a number are skipped, and the two string values stay.
\<close>

theorem fieldToJsonSchema_select_enum_counterexample:
  "fieldToJsonSchema
     \<lparr>name = ''answer'', label = ''Answer'', ftype = ''select'', required = None,
        rules = Obj [(''options'', Arr [Obj [(''label'', Str ''A''), (''value'', Str ''a'')],
                                        Num (Fin 5),
                                        Obj [(''label'', Str ''Seven''), (''value'', Num (Fin 7))],
                                        Obj [(''label'', Str ''B''), (''value'', Str ''b'')]])]\<rparr>
     = Inr (Obj [(''type'', Str ''string''), (''enum'', Arr [Str ''a'', Str ''b''])])"
  by (simp add: fieldToJsonSchema_def readOptionsValues_def)

text \<open>
  C6, as the program has it. In a form whose field names are distinct and that contains a
  field named \<open>email\<close> of type \<open>email\<close> with \<open>required\<close> true and none of the text rules
  set, the generated document has \<open>properties.email\<close> equal to \<open>{type: "string", format:
  "email"}\<close> and a \<open>required\<close> array that contains \<open>email\<close>.
\<close>

theorem generateJsonSchema_email:
  assumes d: "distinct (map name (form_fields form))"
    and m: "field \<in> set (form_fields form)"
    and n: "name field = ''email''"
    and t: "ftype field = ''email''"
    and q: "required field = Some True"
    and nr: "\<forall>k \<in> set (ruleKeys ''email''). ownProp (rules field) k = Undefined"
  shows "\<exists>doc. generateJsonSchema form = Inr doc \<and>
           ownProp (ownProp doc ''properties'') ''email'' =
             Obj [(''type'', Str ''string''), (''format'', Str ''email'')] \<and>
           (\<exists>req. ownProp doc ''required'' = Arr req \<and> Str ''email'' \<in> set req)"
proof -
  let ?names = "map name (filter (\<lambda>f. required f = Some True) (form_fields form))"
  obtain kvs' where l: "generateJsonSchema_loop (form_fields form) (Obj [], []) =
      Inr (Obj kvs', [] @ ?names)"
    using generateJsonSchema_loop_required by blast
  have e: "''email'' \<in> set ?names" using m n q by force
  then have ne: "?names \<noteq> []" by (metis empty_iff list.set(1))
  have doc: "generateJsonSchema form =
     Inr (Obj [(''$schema'', Str ''https://json-schema.org/draft/2020-12/schema''),
                (''title'', Str (title form)),
                (''type'', Str ''object''),
                (''additionalProperties'', Bool False),
                (''properties'', Obj kvs'),
                (''required'', Arr (map Str ?names))])"
    unfolding generateJsonSchema_def l using ne by (simp add: Let_def)
  have "fieldToJsonSchema field = Inr (ownProp (Obj kvs') (name field))"
    using generateJsonSchema_loop_property [OF l d m] .
  moreover have "fieldToJsonSchema field =
      Inr (Obj [(''type'', Str ''string''), (''format'', Str ''email'')])"
    using fieldToJsonSchema_text [of field] t nr by (simp add: ruleKeys_def Let_def)
  ultimately have p: "ownProp (Obj kvs') ''email'' =
      Obj [(''type'', Str ''string''), (''format'', Str ''email'')]"
    using n by simp
  have e': "Str ''email'' \<in> set (map Str ?names)"
    using e by force
  show ?thesis
    unfolding doc using p e' by (simp del: set_map map_map)
qed

theorem generateJsonSchema_email_witness:
  "generateJsonSchema
     \<lparr>form_id = ''signup'', title = ''Sign up'', description = None,
        form_fields =
          [\<lparr>name = ''fullName'', label = ''Full name'', ftype = ''text'', required = None,
             rules = Undefined\<rparr>,
           \<lparr>name = ''email'', label = ''Email'', ftype = ''email'', required = Some True,
             rules = Undefined\<rparr>]\<rparr>
   = Inr (Obj [(''$schema'', Str ''https://json-schema.org/draft/2020-12/schema''),
               (''title'', Str ''Sign up''),
               (''type'', Str ''object''),
               (''additionalProperties'', Bool False),
               (''properties'',
                  Obj [(''fullName'', Obj [(''type'', Str ''string'')]),
                       (''email'', Obj [(''type'', Str ''string''), (''format'', Str ''email'')])]),
               (''required'', Arr [Str ''email''])])"
  using generateJsonSchema_email [of
     "\<lparr>form_id = ''signup'', title = ''Sign up'', description = None,
        form_fields =
          [\<lparr>name = ''fullName'', label = ''Full name'', ftype = ''text'', required = None,
             rules = Undefined\<rparr>,
           \<lparr>name = ''email'', label = ''Email'', ftype = ''email'', required = Some True,
             rules = Undefined\<rparr>]\<rparr>"
     "\<lparr>name = ''email'', label = ''Email'', ftype = ''email'', required = Some True,
             rules = Undefined\<rparr>"]
  by (simp add: generateJsonSchema_def fieldToJsonSchema_def ruleKeys_def)

text \<open>
  The claim as it is written, for every form that contains such a field, fails when a
  later field has the same name: \<open>properties[field.name]\<close> is assigned once per field,
  so the entry of the email field is overwritten by the schema of the number field.
\<close>

theorem generateJsonSchema_email_counterexample:
  "generateJsonSchema
     \<lparr>form_id = ''signup'', title = ''Sign up'', description = None,
        form_fields =
          [\<lparr>name = ''email'', label = ''Email'', ftype = ''email'', required = Some True,
             rules = Undefined\<rparr>,
           \<lparr>name = ''email'', label = ''Copies'', ftype = ''number'', required = None,
             rules = Undefined\<rparr>]\<rparr>
   = Inr (Obj [(''$schema'', Str ''https://json-schema.org/draft/2020-12/schema''),
               (''title'', Str ''Sign up''),
               (''type'', Str ''object''),
               (''additionalProperties'', Bool False),
               (''properties'', Obj [(''email'', Obj [(''type'', Str ''number'')])]),
               (''required'', Arr [Str ''email''])])"
  by (simp add: generateJsonSchema_def fieldToJsonSchema_def)

subsection \<open>Rule keys\<close>

lemma fieldToJsonSchema_cong:
  assumes t: "ftype g = ftype f"
    and k: "\<forall>k \<in> set (ruleKeys (ftype f)). ownProp (rules g) k = ownProp (rules f) k"
  shows "fieldToJsonSchema g = fieldToJsonSchema f"
proof -
  consider (textlike) "ftype f = ''text'' \<or> ftype f = ''textarea'' \<or> ftype f = ''email''"
    | (number) "ftype f = ''number''" | (select) "ftype f = ''select''"
    | (other) "ftype f \<noteq> ''text''" "ftype f \<noteq> ''textarea''" "ftype f \<noteq> ''email''"
      "ftype f \<noteq> ''number''" "ftype f \<noteq> ''select''"
    by blast
  then show ?thesis
  proof cases
    case textlike
    then have tg: "ftype g = ''text'' \<or> ftype g = ''textarea'' \<or> ftype g = ''email''"
      using t by simp
    have e: "ownProp (rules g) ''minLength'' = ownProp (rules f) ''minLength''"
      "ownProp (rules g) ''maxLength'' = ownProp (rules f) ''maxLength''"
      "ownProp (rules g) ''pattern'' = ownProp (rules f) ''pattern''"
      using k textlike by (auto simp: ruleKeys_def)
    show ?thesis
      unfolding fieldToJsonSchema_text [OF textlike] fieldToJsonSchema_text [OF tg] t e ..
  next
    case number
    then have tg: "ftype g = ''number''" using t by simp
    have e: "ownProp (rules g) ''integer'' = ownProp (rules f) ''integer''"
      "ownProp (rules g) ''min'' = ownProp (rules f) ''min''"
      "ownProp (rules g) ''max'' = ownProp (rules f) ''max''"
      using k number by (auto simp: ruleKeys_def)
    show ?thesis
      unfolding fieldToJsonSchema_number [OF number] fieldToJsonSchema_number [OF tg] e ..
  next
    case select
    then have tg: "ftype g = ''select''" using t by simp
    have e: "ownProp (rules g) ''options'' = ownProp (rules f) ''options''"
      using k select by (auto simp: ruleKeys_def)
    show ?thesis
      unfolding fieldToJsonSchema_select [OF select] fieldToJsonSchema_select [OF tg] e ..
  next
    case other
    then show ?thesis
      using fieldToJsonSchema_other [of f] fieldToJsonSchema_other [of g] t by simp
  qed
qed

lemma fieldToJsonSchema_keys:
  "\<exists>out. fieldToJsonSchema f = Inr (Obj out) \<and> fst ` set out \<subseteq> set (schemaKeys (ftype f))"
proof -
  consider (textlike) "ftype f = ''text'' \<or> ftype f = ''textarea'' \<or> ftype f = ''email''"
    | (number) "ftype f = ''number''" | (select) "ftype f = ''select''"
    | (other) "ftype f \<noteq> ''text''" "ftype f \<noteq> ''textarea''" "ftype f \<noteq> ''email''"
      "ftype f \<noteq> ''number''" "ftype f \<noteq> ''select''"
    by blast
  then show ?thesis
  proof cases
    case textlike
    show ?thesis
      unfolding fieldToJsonSchema_text [OF textlike] using textlike
      by (cases "ownProp (rules f) ''pattern''") (auto simp: Let_def schemaKeys_def)
  next
    case number
    show ?thesis
      unfolding fieldToJsonSchema_number [OF number] using number
      by (auto simp: Let_def schemaKeys_def)
  next
    case select
    show ?thesis
      unfolding fieldToJsonSchema_select [OF select] using select
      by (simp add: schemaKeys_def)
  next
    case other
    show ?thesis
      unfolding fieldToJsonSchema_other [OF other] using other
      by (simp add: schemaKeys_def)
  qed
qed

text \<open>
  C8. The property schema of a field depends on the rules bag only through the rule keys
  of the field's own type: two bags that agree on these keys give the same schema,
  whatever else they hold. And the schema has no key but those the field's type projects
  to, so that a rule key of another type never appears in it.
\<close>

theorem fieldToJsonSchema_rule_keys:
  "((\<forall>k \<in> set (ruleKeys (ftype field)). ownProp r k = ownProp r' k) \<longrightarrow>
      fieldToJsonSchema (field\<lparr>rules := r\<rparr>) = fieldToJsonSchema (field\<lparr>rules := r'\<rparr>)) \<and>
   (\<exists>out. fieldToJsonSchema field = Inr (Obj out) \<and>
          fst ` set out \<subseteq> set (schemaKeys (ftype field)))"
  using fieldToJsonSchema_cong [of "field\<lparr>rules := r\<rparr>" "field\<lparr>rules := r'\<rparr>"]
    fieldToJsonSchema_keys [of field]
  by simp

theorem fieldToJsonSchema_rule_keys_witness:
  "fieldToJsonSchema
     \<lparr>name = ''nick'', label = ''Nickname'', ftype = ''text'', required = None,
        rules = Obj [(''minLength'', Num (Fin 2)),
                     (''options'', Arr [Obj [(''label'', Str ''Yes''), (''value'', Str ''y'')]]),
                     (''min'', Num (Fin 5)), (''integer'', Bool True)]\<rparr>
   = fieldToJsonSchema
     \<lparr>name = ''nick'', label = ''Nickname'', ftype = ''text'', required = None,
        rules = Obj [(''minLength'', Num (Fin 2))]\<rparr> \<and>
   fieldToJsonSchema
     \<lparr>name = ''nick'', label = ''Nickname'', ftype = ''text'', required = None,
        rules = Obj [(''minLength'', Num (Fin 2))]\<rparr>
   = Inr (Obj [(''type'', Str ''string''), (''minLength'', Num (Fin 2))])"
  using fieldToJsonSchema_rule_keys [of
     "\<lparr>name = ''nick'', label = ''Nickname'', ftype = ''text'', required = None,
        rules = Undefined\<rparr>"
     "Obj [(''minLength'', Num (Fin 2)),
           (''options'', Arr [Obj [(''label'', Str ''Yes''), (''value'', Str ''y'')]]),
           (''min'', Num (Fin 5)), (''integer'', Bool True)]"
     "Obj [(''minLength'', Num (Fin 2))]"]
  by (simp add: ruleKeys_def fieldToJsonSchema_def readNumber_def readString_def)

section \<open>Properties of the component exporter\<close>

subsection \<open>The component name\<close>

lemma makeSafeComponentName_starts:
  "startsWithLetterOrUnderscore (makeSafeComponentName input)"
  by (simp add: makeSafeComponentName_def Let_def isAlpha_def)

lemma set_trim: "set (trim s) \<subseteq> set s"
proof -
  have "set (trim s) \<subseteq> set (rev (dropWhile isSpace s))"
    unfolding trim_def by (metis set_dropWhileD set_rev subsetI)
  then show ?thesis by (auto dest: set_dropWhileD)
qed

lemma replaceSeps_spaces:
  "\<forall>c \<in> set s. isSep c \<or> isSpace c \<Longrightarrow> \<forall>c \<in> set (replaceSeps s). isSpace c"
proof (induction s rule: replaceSeps.induct)
  case 1
  then show ?case by simp
next
  case (2 c cs)
  have sp: "isSpace (CHR '' '')" by (simp add: isSpace_def)
  show ?case
  proof (cases "isSep c")
    case True
    have "\<forall>c \<in> set (dropWhile isSep cs). isSep c \<or> isSpace c"
      using "2.prems" by (auto dest: set_dropWhileD)
    then show ?thesis using "2.IH"(1) [OF True] True sp by simp
  next
    case False
    then show ?thesis using "2.IH"(2) [OF False] "2.prems" by simp
  qed
qed

lemma splitSpaces_spaces:
  "\<forall>c \<in> set s. isSpace c \<Longrightarrow> \<forall>w \<in> set (splitSpaces s). w = []"
proof (induction s rule: splitSpaces.induct)
  case 1
  then show ?case by simp
next
  case (2 c cs)
  have c: "isSpace c" using "2.prems" by simp
  have "\<forall>c \<in> set (dropWhile isSpace cs). isSpace c"
    using "2.prems" by (auto dest: set_dropWhileD)
  then show ?case using "2.IH"(1) [OF c] c by simp
qed

lemma toPascalCase_empty:
  assumes "\<forall>c \<in> set s. isSep c \<or> isSpace c"
  shows "toPascalCase s = []"
proof -
  have "\<forall>w \<in> set (splitSpaces (replaceSeps s)). w = []"
    using splitSpaces_spaces [OF replaceSeps_spaces [OF assms]] .
  then have "filter (\<lambda>part. part \<noteq> []) (splitSpaces (replaceSeps s)) = []"
    by (simp add: filter_empty_conv)
  then show ?thesis by (simp add: toPascalCase_def)
qed

lemma toPascalCase_GeneratedForm: "toPascalCase ''GeneratedForm'' = ''GeneratedForm''"
  by (simp add: toPascalCase_def isSep_def isSpace_def toUpperCase_def)

lemma makeSafeComponentName_fallback:
  assumes "\<forall>c \<in> set input. \<not> isAlpha c \<and> \<not> isDigit c"
  shows "makeSafeComponentName input = ''GeneratedForm''"
proof -
  let ?m = "map (\<lambda>c. if isAlpha c \<or> isDigit c \<or> c = CHR ''_'' \<or> c = CHR ''-''
                                        \<or> isSpace c then c else CHR '' '') input"
  have "\<forall>c \<in> set ?m. isSep c \<or> isSpace c"
    using assms by (auto simp: isSep_def isSpace_def)
  then have cl: "\<forall>c \<in> set (trim ?m). isSep c \<or> isSpace c"
    using set_trim by blast
  have "toPascalCase (safeIdentifier input) = [] \<or>
        toPascalCase (safeIdentifier input) = ''GeneratedForm''"
    unfolding safeIdentifier_def Let_def
    using toPascalCase_empty [OF cl] toPascalCase_GeneratedForm by simp
  then show ?thesis
    unfolding makeSafeComponentName_def Let_def by (auto simp: isAlpha_def)
qed

lemma componentName_starts: "startsWithLetterOrUnderscore (componentName form)"
  by (simp add: componentName_def makeSafeComponentName_starts)

subsection \<open>Escaping\<close>

text \<open>
  C9. The claim is that the component name starts with a letter or an underscore and
  falls back to a fixed name (which the two lemmas above show), and that the title and
  the description are escaped so that they cannot break the generated source. They are
  escaped for a template literal, but the generated source holds them as the text of an
  element, where a backslash escapes nothing and an opening brace starts an expression.
  For the title \<open>${alert(1)}\<close> the element that is generated contains the expression
  \<open>{alert(1)}\<close>, with the text \<open>\$\<close> before it; a description with braces is
  generated unchanged.
\<close>

theorem titleElement_keeps_expression:
  "titleElement \<lparr>form_id = ''feedback'', title = ''${alert(1)}'',
                 description = Some ''Use {braces}'', form_fields = []\<rparr>
     = ''<div style={{ fontSize: 18, fontWeight: 600 }}>'' @ [CHR 0x5C] @ ''${alert(1)}</div>'' \<and>
   descriptionElement \<lparr>form_id = ''feedback'', title = ''${alert(1)}'',
                 description = Some ''Use {braces}'', form_fields = []\<rparr>
     = ''<div style={{ color: '' @ [CHR 0x22] @ ''#666'' @ [CHR 0x22] @ '', fontSize: 14 }}>''
       @ ''Use {braces}</div>''"
  by (simp add: titleElement_def escapedTitle_def descriptionElement_def escapedDescription_def
      escapeTemplateString_def backslash_def backtick_def)

end
